theory Spec2Isabelle
  imports Main
begin

section \<open>JavaScript objects and strings\<close>

text \<open>
  A JavaScript object with string keys is modelled as the list of its own properties in
  insertion order, so that \<open>Object.values\<close> and \<open>Object.entries\<close> enumerate it as the
  engine does (none of the keys used in this repository is an integer index, for which
  the engine would use numeric order instead).
\<close>

type_synonym 'a jsobject = "(string \<times> 'a) list"

definition Object_values :: "'a jsobject \<Rightarrow> 'a list" where
  "Object_values obj = map snd obj"

definition Object_entries :: "'a jsobject \<Rightarrow> (string \<times> 'a) list" where
  "Object_entries obj = obj"

definition Object_keys :: "'a jsobject \<Rightarrow> string list" where
  "Object_keys obj = map fst obj"

text \<open>
  An object never holds the same own key twice.
\<close>

definition wellformed :: "'a jsobject \<Rightarrow> bool" where
  "wellformed obj = distinct (map fst obj)"

text \<open>
  Writing a property: an existing key keeps its position and takes the new value, a new
  key is appended. This is what each entry of an object literal and each property copied
  by a spread \<open>...source\<close> does.
\<close>

fun setProperty :: "string \<Rightarrow> 'a \<Rightarrow> 'a jsobject \<Rightarrow> 'a jsobject" where
  "setProperty k v [] = [(k, v)]"
| "setProperty k v ((k', v') # ps) =
     (if k = k' then (k, v) # ps else (k', v') # setProperty k v ps)"

definition spread :: "'a jsobject \<Rightarrow> 'a jsobject \<Rightarrow> 'a jsobject" where
  "spread target source = fold (\<lambda>(k, v) acc. setProperty k v acc) (Object_entries source) target"

text \<open>
  Reading a property \<open>obj[name]\<close> of an object literal: an own property is found first;
  otherwise the lookup continues in \<open>Object.prototype\<close>, whose property names are listed
  below; otherwise the result is \<open>undefined\<close>. The inherited values are functions (or,
  for \<open>__proto__\<close>, the prototype object itself): they are truthy and have no property
  of their own called \<open>regions\<close>.
\<close>

datatype 'a jsvalue = Undefined | Own 'a | Inherited string

definition objectPrototypeNames :: "string list" where
  "objectPrototypeNames =
     [''constructor'', ''__defineGetter__'', ''__defineSetter__'', ''hasOwnProperty'',
      ''__lookupGetter__'', ''__lookupSetter__'', ''isPrototypeOf'',
      ''propertyIsEnumerable'', ''toString'', ''valueOf'', ''__proto__'',
      ''toLocaleString'']"

definition getProperty :: "'a jsobject \<Rightarrow> string \<Rightarrow> 'a jsvalue" where
  "getProperty obj name =
     (case map_of obj name of
        Some v \<Rightarrow> Own v
      | None \<Rightarrow> if name \<in> set objectPrototypeNames then Inherited name else Undefined)"

fun truthy :: "'a jsvalue \<Rightarrow> bool" where
  "truthy Undefined = False"
| "truthy (Own v) = True"
| "truthy (Inherited n) = True"

text \<open>
  \<open>value || fallback\<close> for a value that is a string or \<open>undefined\<close>: the empty string
  is falsy, like \<open>undefined\<close>.
\<close>

fun orDefault :: "string option \<Rightarrow> string \<Rightarrow> string" where
  "orDefault None d = d"
| "orDefault (Some s) d = (if s = [] then d else s)"

definition quoted :: "string \<Rightarrow> string" where
  "quoted s = [CHR 0x27] @ s @ [CHR 0x27]"

text \<open>
  \<open>s.split(c)\<close> for a one-character separator.
\<close>

fun split_on :: "char \<Rightarrow> string \<Rightarrow> string list" where
  "split_on c [] = [[]]"
| "split_on c (x # xs) =
     (if x = c then [] # split_on c xs
      else (case split_on c xs of
              [] \<Rightarrow> [[x]]
            | w # ws \<Rightarrow> (x # w) # ws))"

section \<open>The configuration table (lib/config/environment-config.ts)\<close>

record RegionConfig =
  region :: string
  vpcId :: string
  subnetIds :: "string list"
  securityGroupIds :: "string list"
  certificateArn :: string
  hostedZoneId :: string

record EnvironmentConfig =
  appName :: string
  environment :: string
  regions :: "RegionConfig jsobject"
  iamRoleArn :: string
  domainName :: string
  containerImage :: string
  containerPort :: int
  healthCheckPath :: string
  minCapacity :: int
  maxCapacity :: int
  desiredCount :: int
  cpu :: int
  memory :: int
  containerEnvironmentVariables :: "string jsobject"

definition local_config :: EnvironmentConfig where
  "local_config = \<lparr>
     appName = ''mcp-gw'',
     environment = ''local'',
     regions = [
       (''us-east-1'', \<lparr>
          region = ''us-east-1'',
          vpcId = ''vpc-12345678'',
          subnetIds = [''subnet-12345678'', ''subnet-87654321''],
          securityGroupIds = [''sg-ae374e9b657d70aa0''],
          certificateArn = ''arn:aws:acm:us-east-1:000000000000:certificate/d332aa69-965b-4973-b83d-67fec57413a7'',
          hostedZoneId = ''0SQTVEPGW0AFBRL'' \<rparr>)],
     iamRoleArn = ''arn:aws:iam::000000000000:role/ecs-task-role'',
     domainName = ''local.mcp-gw.com'',
     containerImage = ''mcp-gw-sample-app:latest'',
     containerPort = 8000,
     healthCheckPath = ''/ready/status'',
     minCapacity = 1,
     maxCapacity = 2,
     desiredCount = 1,
     cpu = 256,
     memory = 512,
     containerEnvironmentVariables = [
       (''NODE_ENV'', ''development''),
       (''LOG_LEVEL'', ''debug''),
       (''API_VERSION'', ''v1''),
       (''DATABASE_POOL_SIZE'', ''2''),
       (''CACHE_TTL'', ''60'')] \<rparr>"

definition dev_config :: EnvironmentConfig where
  "dev_config = \<lparr>
     appName = ''mcp-gw'',
     environment = ''dev'',
     regions = [
       (''us-east-1'', \<lparr>
          region = ''us-east-1'',
          vpcId = ''vpc-dev-us-east-1-xxxxxxxxx'',
          subnetIds = [''subnet-dev-us-east-1-xxxxxxxxx'', ''subnet-dev-us-east-1-yyyyyyyyy''],
          securityGroupIds = [''sg-dev-us-east-1-xxxxxxxxx''],
          certificateArn = ''arn:aws:acm:us-east-1:123456789012:certificate/dev-xxxxxxxxx'',
          hostedZoneId = ''Z1234567890123'' \<rparr>)],
     iamRoleArn = ''arn:aws:iam::123456789012:role/dev-ecs-task-role'',
     domainName = ''dev.yourdomain.com'',
     containerImage = ''your-ecr-repo:dev-latest'',
     containerPort = 8000,
     healthCheckPath = ''/ready/status'',
     minCapacity = 1,
     maxCapacity = 5,
     desiredCount = 2,
     cpu = 256,
     memory = 512,
     containerEnvironmentVariables = [
       (''NODE_ENV'', ''development''),
       (''LOG_LEVEL'', ''debug''),
       (''API_VERSION'', ''v1''),
       (''DATABASE_POOL_SIZE'', ''5''),
       (''CACHE_TTL'', ''300'')] \<rparr>"

definition qa_config :: EnvironmentConfig where
  "qa_config = \<lparr>
     appName = ''mcp-gw'',
     environment = ''qa'',
     regions = [
       (''us-east-1'', \<lparr>
          region = ''us-east-1'',
          vpcId = ''vpc-qa-us-east-1-xxxxxxxxx'',
          subnetIds = [''subnet-qa-us-east-1-xxxxxxxxx'', ''subnet-qa-us-east-1-yyyyyyyyy''],
          securityGroupIds = [''sg-qa-us-east-1-xxxxxxxxx''],
          certificateArn = ''arn:aws:acm:us-east-1:123456789012:certificate/qa-xxxxxxxxx'',
          hostedZoneId = ''Z1234567890123'' \<rparr>),
       (''us-west-2'', \<lparr>
          region = ''us-west-2'',
          vpcId = ''vpc-qa-us-west-2-xxxxxxxxx'',
          subnetIds = [''subnet-qa-us-west-2-xxxxxxxxx'', ''subnet-qa-us-west-2-yyyyyyyyy''],
          securityGroupIds = [''sg-qa-us-west-2-xxxxxxxxx''],
          certificateArn = ''arn:aws:acm:us-west-2:123456789012:certificate/qa-xxxxxxxxx'',
          hostedZoneId = ''Z1234567890123'' \<rparr>)],
     iamRoleArn = ''arn:aws:iam::123456789012:role/qa-ecs-task-role'',
     domainName = ''qa.yourdomain.com'',
     containerImage = ''your-ecr-repo:qa-latest'',
     containerPort = 8000,
     healthCheckPath = ''/ready/status'',
     minCapacity = 2,
     maxCapacity = 10,
     desiredCount = 3,
     cpu = 512,
     memory = 1024,
     containerEnvironmentVariables = [
       (''NODE_ENV'', ''staging''),
       (''LOG_LEVEL'', ''info''),
       (''API_VERSION'', ''v1''),
       (''DATABASE_POOL_SIZE'', ''10''),
       (''CACHE_TTL'', ''600''),
       (''ENABLE_METRICS'', ''true'')] \<rparr>"

definition prod_config :: EnvironmentConfig where
  "prod_config = \<lparr>
     appName = ''mcp-gw'',
     environment = ''prod'',
     regions = [
       (''us-east-1'', \<lparr>
          region = ''us-east-1'',
          vpcId = ''vpc-prod-us-east-1-xxxxxxxxx'',
          subnetIds = [''subnet-prod-us-east-1-xxxxxxxxx'', ''subnet-prod-us-east-1-yyyyyyyyy''],
          securityGroupIds = [''sg-prod-us-east-1-xxxxxxxxx''],
          certificateArn = ''arn:aws:acm:us-east-1:123456789012:certificate/prod-xxxxxxxxx'',
          hostedZoneId = ''Z1234567890123'' \<rparr>),
       (''us-west-2'', \<lparr>
          region = ''us-west-2'',
          vpcId = ''vpc-prod-us-west-2-xxxxxxxxx'',
          subnetIds = [''subnet-prod-us-west-2-xxxxxxxxx'', ''subnet-prod-us-west-2-yyyyyyyyy''],
          securityGroupIds = [''sg-prod-us-west-2-xxxxxxxxx''],
          certificateArn = ''arn:aws:acm:us-west-2:123456789012:certificate/prod-xxxxxxxxx'',
          hostedZoneId = ''Z1234567890123'' \<rparr>)],
     iamRoleArn = ''arn:aws:iam::123456789012:role/prod-ecs-task-role'',
     domainName = ''prod.yourdomain.com'',
     containerImage = ''your-ecr-repo:prod-latest'',
     containerPort = 8000,
     healthCheckPath = ''/ready/status'',
     minCapacity = 5,
     maxCapacity = 20,
     desiredCount = 10,
     cpu = 1024,
     memory = 2048,
     containerEnvironmentVariables = [
       (''NODE_ENV'', ''production''),
       (''LOG_LEVEL'', ''warn''),
       (''API_VERSION'', ''v1''),
       (''DATABASE_POOL_SIZE'', ''20''),
       (''CACHE_TTL'', ''900''),
       (''ENABLE_METRICS'', ''true''),
       (''PERFORMANCE_MONITORING'', ''true'')] \<rparr>"

definition environments :: "EnvironmentConfig jsobject" where
  "environments =
     [(''local'', local_config), (''dev'', dev_config), (''qa'', qa_config),
      (''prod'', prod_config)]"

text \<open>
  The region a certificate ARN names: the fourth of its colon-separated components
  (\<open>arn:partition:service:region:account:resource\<close>). The repository never parses an
  ARN; this function states what the configuration invariant compares.
\<close>

definition arnRegion :: "string \<Rightarrow> string option" where
  "arnRegion arn =
     (let parts = split_on (CHR '':'') arn
      in if 3 < length parts then Some (parts ! 3) else None)"

section \<open>The stack classes\<close>

text \<open>
  A stack object is represented by the part of its resource description that depends on
  the configuration: its construct id, the region of its \<open>env\<close> property, the
  environment variables of the container, the certificate and hosted zone it refers to,
  the desired task count of the service, and the auto scaling it registers. A field is
  \<open>None\<close> (or the empty list) until the constructor reaches the statement that
  configures it.

  \<open>service.autoScaleTaskCount\<close> registers a scalable target with the given bounds;
  \<open>scaleOnCpuUtilization\<close> and \<open>scaleOnMemoryUtilization\<close> each add one target-tracking
  policy on the predefined metric of that name, with \<open>targetUtilizationPercent\<close> as the
  target value. \<open>cdk.Duration.seconds n\<close> is kept as the number of seconds, the unit of
  the cooldown fields of \<open>CfnScalingPolicy\<close>.
\<close>

datatype PredefinedMetric =
  ECSServiceAverageCPUUtilization | ECSServiceAverageMemoryUtilization

record ScalingPolicy =
  policyId :: string
  predefinedMetricType :: PredefinedMetric
  targetValue :: int
  scaleInCooldown :: int
  scaleOutCooldown :: int

record ScalableTarget =
  targetMinCapacity :: int
  targetMaxCapacity :: int

datatype StackClass =
  EcsServiceStackClass | EcsServiceCfnStackClass
  | SimpleEcsServiceStackClass | SimpleEcsServiceStackPathRoutingClass

record Stack =
  stackId :: string
  stackClass :: StackClass
  stackRegion :: string
  containerEnvironment :: "(string \<times> string) list option"
  importedCertificateArn :: "string option"
  serviceDesiredCount :: "int option"
  scalableTarget :: "ScalableTarget option"
  scalingPolicies :: "ScalingPolicy list"
  importedHostedZoneId :: "string option"

text \<open>
  A constructor can end with an exception. Three statements of the stack classes throw
  in the provisioning library (aws-cdk-lib) or in the language itself:
  \<^item> \<open>ec2.Vpc.fromLookup\<close>, the first statement of every constructor, needs the account
    of the stack: when \<open>env.account\<close> is \<open>undefined\<close> the context provider refuses the
    lookup;
  \<^item> \<open>route53.HostedZone.fromHostedZoneId\<close> gives a zone whose \<open>zoneName\<close> cannot be
    read, and \<open>new route53.ARecord\<close> with a \<open>recordName\<close> reads it;
  \<^item> \<open>elbv2.RedirectResponseStatusCode\<close> is not exported by the library, so reading
    \<open>.HTTP_302_FOUND\<close> of it is a TypeError.
  The library reports the first two as validation errors; they are kept apart here by
  their cause. Every other call into the library is taken to succeed.
\<close>

datatype LibraryFailure = AccountNotSpecified | ZoneNameNotAvailable

datatype error = Error string | TypeError string | LibraryError LibraryFailure

text \<open>
  \<open>super(scope, id, props)\<close>: the stack object before the body of the constructor runs.
\<close>

definition superStack :: "string \<Rightarrow> StackClass \<Rightarrow> string \<Rightarrow> Stack" where
  "superStack cid cls envRegion = \<lparr>
     stackId = cid,
     stackClass = cls,
     stackRegion = envRegion,
     containerEnvironment = None,
     importedCertificateArn = None,
     serviceDesiredCount = None,
     scalableTarget = None,
     scalingPolicies = [],
     importedHostedZoneId = None \<rparr>"

definition Vpc_fromLookup :: "string option \<Rightarrow> error option" where
  "Vpc_fromLookup envAccount =
     (case envAccount of
        None \<Rightarrow> Some (LibraryError AccountNotSpecified)
      | Some account \<Rightarrow> None)"

text \<open>
  The \<open>environment\<close> object literal of the container, written identically in
  \<open>EcsServiceStack\<close> and in both versions of \<open>SimpleEcsServiceStack\<close>:
  \<^verbatim>\<open>{ ENVIRONMENT: environmentConfig.environment, REGION: regionConfig.region,
    ...environmentConfig.containerEnvironmentVariables }\<close>
  The two system properties are written first, then the spread copies every custom
  property onto the object.
\<close>

definition mergedEnvironment :: "EnvironmentConfig \<Rightarrow> RegionConfig \<Rightarrow> string jsobject" where
  "mergedEnvironment environmentConfig regionConfig =
     spread
       (setProperty ''REGION'' (region regionConfig)
         (setProperty ''ENVIRONMENT'' (environment environmentConfig) []))
       (containerEnvironmentVariables environmentConfig)"

text \<open>
  \<open>EcsServiceCfnStack\<close> passes an array of name/value pairs instead: the two system
  entries followed by one entry per custom property.
\<close>

definition cfnEnvironment :: "EnvironmentConfig \<Rightarrow> RegionConfig \<Rightarrow> (string \<times> string) list" where
  "cfnEnvironment environmentConfig regionConfig =
     [(''ENVIRONMENT'', environment environmentConfig), (''REGION'', region regionConfig)]
     @ map (\<lambda>(name, v). (name, v))
         (Object_entries (containerEnvironmentVariables environmentConfig))"

text \<open>
  Each constructor takes the account and region of its \<open>env\<close> property, its id and the
  two configurations, and returns the exception it ended with, if any, together with the
  stack object as the statements before that point left it.

  EcsServiceStack (high-level constructs, blue/green deployment): VPC lookup, container,
  certificate, service, auto scaling, hosted zone, and then the alias record, which
  throws.
\<close>

definition EcsServiceStack ::
  "string option \<Rightarrow> string \<Rightarrow> string \<Rightarrow> EnvironmentConfig \<Rightarrow> RegionConfig
   \<Rightarrow> error option \<times> Stack" where
  "EcsServiceStack envAccount cid envRegion environmentConfig regionConfig =
     (let this = superStack cid EcsServiceStackClass envRegion
      in case Vpc_fromLookup envAccount of
           Some err \<Rightarrow> (Some err, this)
         | None \<Rightarrow>
             (let this = this\<lparr>containerEnvironment :=
                          Some (mergedEnvironment environmentConfig regionConfig)\<rparr>;
                  this = this\<lparr>importedCertificateArn := Some (certificateArn regionConfig)\<rparr>;
                  this = this\<lparr>serviceDesiredCount := Some (desiredCount environmentConfig)\<rparr>;
                  this = this\<lparr>scalableTarget := Some \<lparr>
                          targetMinCapacity = minCapacity environmentConfig,
                          targetMaxCapacity = maxCapacity environmentConfig \<rparr>\<rparr>;
                  this = this\<lparr>scalingPolicies := scalingPolicies this @ [
                          \<lparr> policyId = ''CpuScaling'',
                            predefinedMetricType = ECSServiceAverageCPUUtilization,
                            targetValue = 70, scaleInCooldown = 300, scaleOutCooldown = 300 \<rparr>]\<rparr>;
                  this = this\<lparr>scalingPolicies := scalingPolicies this @ [
                          \<lparr> policyId = ''MemoryScaling'',
                            predefinedMetricType = ECSServiceAverageMemoryUtilization,
                            targetValue = 80, scaleInCooldown = 300, scaleOutCooldown = 300 \<rparr>]\<rparr>;
                  this = this\<lparr>importedHostedZoneId := Some (hostedZoneId regionConfig)\<rparr>
              in (Some (LibraryError ZoneNameNotAvailable), this)))"

text \<open>
  EcsServiceCfnStack (low-level CloudFormation constructs): VPC lookup, task definition,
  listener with the certificate, service, scalable target and policies, record set with
  the hosted zone id. The low-level constructs only record their properties.
\<close>

definition EcsServiceCfnStack ::
  "string option \<Rightarrow> string \<Rightarrow> string \<Rightarrow> EnvironmentConfig \<Rightarrow> RegionConfig
   \<Rightarrow> error option \<times> Stack" where
  "EcsServiceCfnStack envAccount cid envRegion environmentConfig regionConfig =
     (let this = superStack cid EcsServiceCfnStackClass envRegion
      in case Vpc_fromLookup envAccount of
           Some err \<Rightarrow> (Some err, this)
         | None \<Rightarrow>
             (let this = this\<lparr>containerEnvironment :=
                          Some (cfnEnvironment environmentConfig regionConfig)\<rparr>;
                  this = this\<lparr>importedCertificateArn := Some (certificateArn regionConfig)\<rparr>;
                  this = this\<lparr>serviceDesiredCount := Some (desiredCount environmentConfig)\<rparr>;
                  this = this\<lparr>scalableTarget := Some \<lparr>
                          targetMinCapacity = minCapacity environmentConfig,
                          targetMaxCapacity = maxCapacity environmentConfig \<rparr>\<rparr>;
                  this = this\<lparr>scalingPolicies := scalingPolicies this @ [
                          \<lparr> policyId = ''CfnCpuScalingPolicy'',
                            predefinedMetricType = ECSServiceAverageCPUUtilization,
                            targetValue = 70, scaleInCooldown = 300, scaleOutCooldown = 300 \<rparr>]\<rparr>;
                  this = this\<lparr>scalingPolicies := scalingPolicies this @ [
                          \<lparr> policyId = ''CfnMemoryScalingPolicy'',
                            predefinedMetricType = ECSServiceAverageMemoryUtilization,
                            targetValue = 80, scaleInCooldown = 300, scaleOutCooldown = 300 \<rparr>]\<rparr>;
                  this = this\<lparr>importedHostedZoneId := Some (hostedZoneId regionConfig)\<rparr>
              in (None, this)))"

text \<open>
  SimpleEcsServiceStack as in lib/simple-ecs-service-stack.ts (host-based routing):
  \<open>desiredCount: 1\<close>, "Auto-scaling removed - running with fixed task count of 1". It
  creates its alias record as EcsServiceStack does.
\<close>

definition SimpleEcsServiceStack ::
  "string option \<Rightarrow> string \<Rightarrow> string \<Rightarrow> EnvironmentConfig \<Rightarrow> RegionConfig
   \<Rightarrow> error option \<times> Stack" where
  "SimpleEcsServiceStack envAccount cid envRegion environmentConfig regionConfig =
     (let this = superStack cid SimpleEcsServiceStackClass envRegion
      in case Vpc_fromLookup envAccount of
           Some err \<Rightarrow> (Some err, this)
         | None \<Rightarrow>
             (let this = this\<lparr>containerEnvironment :=
                          Some (mergedEnvironment environmentConfig regionConfig)\<rparr>;
                  this = this\<lparr>importedCertificateArn := Some (certificateArn regionConfig)\<rparr>;
                  this = this\<lparr>serviceDesiredCount := Some 1\<rparr>;
                  this = this\<lparr>importedHostedZoneId := Some (hostedZoneId regionConfig)\<rparr>
              in (Some (LibraryError ZoneNameNotAvailable), this)))"

text \<open>
  The second version of SimpleEcsServiceStack (path-based routing with redirects). Its
  first redirect rule reads \<open>elbv2.RedirectResponseStatusCode.HTTP_302_FOUND\<close>, after the
  container and the certificate and before the service, the auto scaling and the hosted
  zone.
\<close>

definition SimpleEcsServiceStack_pathRouting ::
  "string option \<Rightarrow> string \<Rightarrow> string \<Rightarrow> EnvironmentConfig \<Rightarrow> RegionConfig
   \<Rightarrow> error option \<times> Stack" where
  "SimpleEcsServiceStack_pathRouting envAccount cid envRegion environmentConfig regionConfig =
     (let this = superStack cid SimpleEcsServiceStackPathRoutingClass envRegion
      in case Vpc_fromLookup envAccount of
           Some err \<Rightarrow> (Some err, this)
         | None \<Rightarrow>
             (let this = this\<lparr>containerEnvironment :=
                          Some (mergedEnvironment environmentConfig regionConfig)\<rparr>;
                  this = this\<lparr>importedCertificateArn := Some (certificateArn regionConfig)\<rparr>
              in (Some (TypeError
                    ''Cannot read properties of undefined (reading HTTP_302_FOUND)''), this)))"

text \<open>
  What the claims about scaling ask of a stack: exactly two policies, CPU at 70 and
  memory at 80, both cooldowns 300 seconds, on a target with the environment's bounds.
\<close>

definition tracksCpuAndMemory :: "EnvironmentConfig \<Rightarrow> Stack \<Rightarrow> bool" where
  "tracksCpuAndMemory environmentConfig s =
     (scalableTarget s = Some \<lparr>
        targetMinCapacity = minCapacity environmentConfig,
        targetMaxCapacity = maxCapacity environmentConfig \<rparr>
      \<and> map (\<lambda>p. (predefinedMetricType p, targetValue p, scaleInCooldown p, scaleOutCooldown p))
            (scalingPolicies s)
          = [(ECSServiceAverageCPUUtilization, 70, 300, 300),
             (ECSServiceAverageMemoryUtilization, 80, 300, 300)])"

section \<open>The application entry point (bin/ecs-service-app.ts)\<close>

text \<open>
  The script reads the environment variable \<open>CDK_DEFAULT_ACCOUNT\<close> and two context
  values (each absent or a string, as \<open>-c key=value\<close> on the command line gives them),
  validates the context values and then constructs one stack per region of the chosen
  environment. An exception ends the script; the second component of the result is the
  list of stacks whose constructor had returned when the script ended.

  An inherited property passes the \<open>!environmentConfig\<close> test, and
  \<open>Object.values(environmentConfig.regions)\<close> then receives \<open>undefined\<close> and throws a
  TypeError.
\<close>

definition environmentNotFound :: "string \<Rightarrow> error" where
  "environmentNotFound environmentName =
     Error (''Environment '' @ quoted environmentName @ '' not found in configuration'')"

definition stackTypeNotSupported :: "string \<Rightarrow> error" where
  "stackTypeNotSupported stackType =
     Error (''Stack type '' @ quoted stackType @ '' not supported. Use ''
            @ quoted ''high-level'' @ '' or '' @ quoted ''cfn'')"

text \<open>The body of the loop: the stack id and the constructor call for one region.\<close>

definition newStack ::
  "string option \<Rightarrow> string \<Rightarrow> EnvironmentConfig \<Rightarrow> RegionConfig \<Rightarrow> error option \<times> Stack" where
  "newStack CDK_DEFAULT_ACCOUNT stackType environmentConfig regionConfig =
     (let stackSuffix = (if stackType = ''cfn'' then ''-cfn'' else '''');
          stackId = appName environmentConfig @ ''-'' @ environment environmentConfig
                    @ ''-'' @ region regionConfig @ stackSuffix
      in if stackType = ''cfn''
         then EcsServiceCfnStack CDK_DEFAULT_ACCOUNT stackId (region regionConfig)
                environmentConfig regionConfig
         else EcsServiceStack CDK_DEFAULT_ACCOUNT stackId (region regionConfig)
                environmentConfig regionConfig)"

text \<open>\<open>forEach\<close> over the regions: the first constructor that throws ends the loop.\<close>

fun forEachRegion ::
  "string option \<Rightarrow> string \<Rightarrow> EnvironmentConfig \<Rightarrow> RegionConfig list \<Rightarrow> Stack list
   \<Rightarrow> error option \<times> Stack list" where
  "forEachRegion account stackType environmentConfig [] app0 = (None, app0)"
| "forEachRegion account stackType environmentConfig (regionConfig # rest) app0 =
     (case newStack account stackType environmentConfig regionConfig of
        (Some err, this) \<Rightarrow> (Some err, app0)
      | (None, this) \<Rightarrow>
          forEachRegion account stackType environmentConfig rest (app0 @ [this]))"

definition app ::
  "string option \<Rightarrow> string option \<Rightarrow> string option \<Rightarrow> error option \<times> Stack list" where
  "app CDK_DEFAULT_ACCOUNT contextEnvironment contextStackType =
     (let app0 = [];
          environmentName = orDefault contextEnvironment ''dev'';
          environmentConfig = getProperty environments environmentName;
          stackType = orDefault contextStackType ''high-level''
      in if \<not> truthy environmentConfig
         then (Some (environmentNotFound environmentName), app0)
         else if stackType \<notin> set [''high-level'', ''cfn'']
         then (Some (stackTypeNotSupported stackType), app0)
         else (case environmentConfig of
                 Own cfg \<Rightarrow>
                   forEachRegion CDK_DEFAULT_ACCOUNT stackType cfg
                     (Object_values (regions cfg)) app0
               | _ \<Rightarrow>
                   (Some (TypeError ''Cannot convert undefined or null to object''), app0)))"

section \<open>The deployment script (scripts/deploy.sh)\<close>

text \<open>
  The script is run with its positional parameters; \<open>tool\<close> gives the exit status of a
  command line handed to \<open>npx\<close>. The result records the exit status of the script, the
  command lines it ran, and the lines it printed. Under \<open>set -e\<close> a failing command ends
  the script with that command's status; the \<open>cdk\<close> command is also the last one, so the
  script's status is the command's in both cases.
\<close>

record ScriptRun =
  exitCode :: nat
  invoked :: "string list list"
  printed :: "string list"

definition positional :: "string list \<Rightarrow> nat \<Rightarrow> string" where
  "positional args n = (if 0 < n \<and> n \<le> length args then args ! (n - 1) else [])"

definition withDefault :: "string \<Rightarrow> string \<Rightarrow> string" where
  "withDefault v d = (if v = [] then d else v)"

text \<open>A provisioning tool that succeeds on every command line, and one that fails.\<close>

definition toolSucceeds :: "string list \<Rightarrow> nat" where
  "toolSucceeds cmd = 0"

definition toolFails :: "string list \<Rightarrow> nat" where
  "toolFails cmd = 1"

definition runCdk :: "(string list \<Rightarrow> nat) \<Rightarrow> string list \<Rightarrow> string list \<Rightarrow> ScriptRun" where
  "runCdk tool out cmd = \<lparr> exitCode = tool cmd, invoked = [cmd], printed = out \<rparr>"

definition deploy_sh :: "(string list \<Rightarrow> nat) \<Rightarrow> string \<Rightarrow> string list \<Rightarrow> ScriptRun" where
  "deploy_sh tool script args =
     (let ENVIRONMENT = positional args 1;
          ACTION = withDefault (positional args 2) ''deploy'';
          STACK_TYPE = withDefault (positional args 3) ''high-level''
      in if ENVIRONMENT = []
         then \<lparr> exitCode = 1, invoked = [],
                printed = [''Usage: '' @ script @ '' <environment> [action] [stackType]'',
                           ''Environment: dev, qa, prod'',
                           ''Action: deploy (default), diff, destroy, synth'',
                           ''StackType: high-level (default), cfn''] \<rparr>
         else if ENVIRONMENT \<noteq> ''dev'' \<and> ENVIRONMENT \<noteq> ''qa'' \<and> ENVIRONMENT \<noteq> ''prod''
         then \<lparr> exitCode = 1, invoked = [],
                printed = [''Error: Environment must be one of: dev, qa, prod''] \<rparr>
         else if STACK_TYPE \<noteq> ''high-level'' \<and> STACK_TYPE \<noteq> ''cfn''
         then \<lparr> exitCode = 1, invoked = [],
                printed = [''Error: Stack type must be one of: high-level, cfn''] \<rparr>
         else
           (let STACK_TYPE_PARAM = (if STACK_TYPE = ''cfn'' then [''-c'', ''stackType=cfn''] else []);
                out = [''Running CDK '' @ ACTION @ '' for environment: '' @ ENVIRONMENT
                       @ '' (stack type: '' @ STACK_TYPE @ '')'']
            in if ACTION = ''deploy''
               then runCdk tool out
                      ([''npx'', ''cdk'', ''deploy'', ''--all'', ''-c'', ''environment='' @ ENVIRONMENT]
                       @ STACK_TYPE_PARAM @ [''--require-approval'', ''never''])
               else if ACTION = ''diff''
               then runCdk tool out
                      ([''npx'', ''cdk'', ''diff'', ''-c'', ''environment='' @ ENVIRONMENT]
                       @ STACK_TYPE_PARAM)
               else if ACTION = ''destroy''
               then runCdk tool out
                      ([''npx'', ''cdk'', ''destroy'', ''--all'', ''-c'', ''environment='' @ ENVIRONMENT]
                       @ STACK_TYPE_PARAM @ [''--force''])
               else if ACTION = ''synth''
               then runCdk tool out
                      ([''npx'', ''cdk'', ''synth'', ''-c'', ''environment='' @ ENVIRONMENT]
                       @ STACK_TYPE_PARAM)
               else \<lparr> exitCode = 1, invoked = [],
                      printed = out @ [''Error: Invalid action. Must be one of: deploy, diff, destroy, synth''] \<rparr>))"

section \<open>Properties of object literals and spreads\<close>

lemma map_of_setProperty: "map_of (setProperty k v ps) = (map_of ps)(k \<mapsto> v)"
  by (induction ps) (auto simp: fun_eq_iff)

lemma keys_setProperty: "set (map fst (setProperty k v ps)) = insert k (set (map fst ps))"
proof -
  have "set (map fst (setProperty k v ps)) = dom (map_of (setProperty k v ps))"
    by (simp add: dom_map_of_conv_image_fst)
  also have "\<dots> = insert k (dom (map_of ps))"
    by (simp add: map_of_setProperty)
  also have "\<dots> = insert k (set (map fst ps))"
    by (simp add: dom_map_of_conv_image_fst)
  finally show ?thesis .
qed

lemma distinct_setProperty:
  "distinct (map fst ps) \<Longrightarrow> distinct (map fst (setProperty k v ps))"
proof (induction ps)
  case Nil
  then show ?case by simp
next
  case (Cons p ps)
  obtain k' v' where p: "p = (k', v')" by (cases p)
  show ?case
  proof (cases "k = k'")
    case True
    then show ?thesis using Cons.prems p by simp
  next
    case False
    have "k' \<notin> set (map fst (setProperty k v ps))"
      using Cons.prems p False keys_setProperty [of k v ps] by simp
    then show ?thesis using Cons p False by simp
  qed
qed

lemma keys_spread:
  "set (Object_keys (spread target source)) = set (Object_keys target) \<union> set (Object_keys source)"
  unfolding spread_def Object_keys_def Object_entries_def
proof (induction source arbitrary: target)
  case Nil
  then show ?case by simp
next
  case (Cons p source)
  obtain k v where p: "p = (k, v)" by (cases p)
  have "set (map fst (fold (\<lambda>(k, v) acc. setProperty k v acc) source (setProperty k v target)))
        = set (map fst (setProperty k v target)) \<union> set (map fst source)"
    by (rule Cons.IH)
  then show ?case using p keys_setProperty [of k v target] by auto
qed

lemma wellformed_spread:
  "wellformed target \<Longrightarrow> wellformed (spread target source)"
  unfolding spread_def wellformed_def Object_entries_def
  by (induction source arbitrary: target) (auto simp: distinct_setProperty)

lemma map_of_spread_absent:
  "k \<notin> set (Object_keys source) \<Longrightarrow> map_of (spread target source) k = map_of target k"
  unfolding spread_def Object_keys_def Object_entries_def
  by (induction source arbitrary: target) (auto simp: map_of_setProperty)

lemma map_of_spread_present:
  "wellformed source \<Longrightarrow> map_of source k = Some v \<Longrightarrow> map_of (spread target source) k = Some v"
  unfolding spread_def wellformed_def Object_entries_def
proof (induction source arbitrary: target)
  case Nil
  then show ?case by simp
next
  case (Cons p source)
  obtain k' v' where p: "p = (k', v')" by (cases p)
  show ?case
  proof (cases "k = k'")
    case True
    with Cons.prems p have "v = v'" by simp
    have "k' \<notin> set (map fst source)" using Cons.prems p by simp
    then have "map_of (fold (\<lambda>(k, v) acc. setProperty k v acc) source (setProperty k' v' target)) k'
       = map_of (setProperty k' v' target) k'"
      using map_of_spread_absent [of k' source "setProperty k' v' target"]
      by (simp add: spread_def Object_keys_def Object_entries_def)
    then show ?thesis using True p \<open>v = v'\<close> by (simp add: map_of_setProperty)
  next
    case False
    then show ?thesis using Cons p by simp
  qed
qed


section \<open>The container environment (C1)\<close>

lemmas config_defs = local_config_def dev_config_def qa_config_def prod_config_def

lemma table_wellformed:
  "(name, cfg) \<in> set environments \<Longrightarrow>
     environment cfg = name \<and> wellformed (containerEnvironmentVariables cfg)
     \<and> ''ENVIRONMENT'' \<notin> set (Object_keys (containerEnvironmentVariables cfg))
     \<and> ''REGION'' \<notin> set (Object_keys (containerEnvironmentVariables cfg))"
  by (auto simp: environments_def config_defs wellformed_def Object_keys_def)

lemma table_region_keys:
  "(name, cfg) \<in> set environments \<Longrightarrow> (key, rc) \<in> set (regions cfg) \<Longrightarrow> region rc = key"
  by (auto simp: environments_def config_defs)

lemma mergedEnvironment_system:
  "map_of (setProperty ''REGION'' r (setProperty ''ENVIRONMENT'' e [])) =
     [''ENVIRONMENT'' \<mapsto> e, ''REGION'' \<mapsto> r]"
  by (simp add: fun_eq_iff)

text \<open>
  C1, as stated, fails: a custom mapping that binds \<open>ENVIRONMENT\<close> replaces the system
  value, because the spread is written after the two system properties. With the dev
  configuration and the custom mapping \<open>{ENVIRONMENT: 'prod'}\<close> the container receives
  \<open>ENVIRONMENT = prod\<close>, not \<open>dev\<close>.
\<close>

theorem merged_environment_override_counterexample:
  "map_of (mergedEnvironment
            (dev_config\<lparr>containerEnvironmentVariables := [(''ENVIRONMENT'', ''prod'')]\<rparr>)
            (hd (Object_values (regions dev_config)))) ''ENVIRONMENT''
   \<noteq> Some (environment dev_config)"
  by (simp add: mergedEnvironment_def spread_def Object_entries_def Object_values_def dev_config_def)

text \<open>
  C1, amended. For every configuration and region, the merged mapping has exactly the keys
  \<open>ENVIRONMENT\<close>, \<open>REGION\<close> and the custom keys, each once; every custom binding is
  present with its custom value; a system key keeps its system value when the custom
  mapping does not bind it; and for every environment of the table and every region of it
  (where no custom mapping binds a system key) \<open>ENVIRONMENT\<close> is the environment name
  and \<open>REGION\<close> the region name. This mapping is what EcsServiceStack and both
  versions of SimpleEcsServiceStack pass to the container; EcsServiceCfnStack passes the
  list of the two system entries followed by the custom entries. (Every constructor
  reaches its container once the account is there for the VPC lookup.)
\<close>

theorem merged_environment_keys_and_values:
  "set (Object_keys (mergedEnvironment cfg rc))
     = {''ENVIRONMENT'', ''REGION''} \<union> set (Object_keys (containerEnvironmentVariables cfg))
   \<and> wellformed (mergedEnvironment cfg rc)
   \<and> (wellformed (containerEnvironmentVariables cfg)
        \<and> map_of (containerEnvironmentVariables cfg) k = Some v
      \<longrightarrow> map_of (mergedEnvironment cfg rc) k = Some v)
   \<and> (''ENVIRONMENT'' \<notin> set (Object_keys (containerEnvironmentVariables cfg))
      \<longrightarrow> map_of (mergedEnvironment cfg rc) ''ENVIRONMENT'' = Some (environment cfg))
   \<and> (''REGION'' \<notin> set (Object_keys (containerEnvironmentVariables cfg))
      \<longrightarrow> map_of (mergedEnvironment cfg rc) ''REGION'' = Some (region rc))
   \<and> ((name, cfg) \<in> set environments \<and> (key, rc) \<in> set (regions cfg)
      \<longrightarrow> map_of (mergedEnvironment cfg rc) ''ENVIRONMENT'' = Some name
          \<and> map_of (mergedEnvironment cfg rc) ''REGION'' = Some key)
   \<and> containerEnvironment (snd (EcsServiceStack (Some a) cid r cfg rc))
       = Some (mergedEnvironment cfg rc)
   \<and> containerEnvironment (snd (SimpleEcsServiceStack (Some a) cid r cfg rc))
       = Some (mergedEnvironment cfg rc)
   \<and> containerEnvironment (snd (SimpleEcsServiceStack_pathRouting (Some a) cid r cfg rc))
       = Some (mergedEnvironment cfg rc)
   \<and> containerEnvironment (snd (EcsServiceCfnStack (Some a) cid r cfg rc))
       = Some ((''ENVIRONMENT'', environment cfg) # (''REGION'', region rc)
               # containerEnvironmentVariables cfg)"
proof -
  let ?sys = "setProperty ''REGION'' (region rc) (setProperty ''ENVIRONMENT'' (environment cfg) [])"
  let ?custom = "containerEnvironmentVariables cfg"
  have keys: "set (Object_keys (mergedEnvironment cfg rc))
     = {''ENVIRONMENT'', ''REGION''} \<union> set (Object_keys ?custom)"
    unfolding mergedEnvironment_def keys_spread by (auto simp: Object_keys_def)
  have wf: "wellformed (mergedEnvironment cfg rc)"
    unfolding mergedEnvironment_def by (rule wellformed_spread) (simp add: wellformed_def)
  have custom: "wellformed ?custom \<and> map_of ?custom k = Some v
      \<longrightarrow> map_of (mergedEnvironment cfg rc) k = Some v"
    unfolding mergedEnvironment_def using map_of_spread_present [of ?custom k v ?sys] by blast
  have env: "''ENVIRONMENT'' \<notin> set (Object_keys ?custom)
      \<longrightarrow> map_of (mergedEnvironment cfg rc) ''ENVIRONMENT'' = Some (environment cfg)"
    unfolding mergedEnvironment_def
    using map_of_spread_absent [of "''ENVIRONMENT''" ?custom ?sys]
    by (simp add: mergedEnvironment_system)
  have reg: "''REGION'' \<notin> set (Object_keys ?custom)
      \<longrightarrow> map_of (mergedEnvironment cfg rc) ''REGION'' = Some (region rc)"
    unfolding mergedEnvironment_def
    using map_of_spread_absent [of "''REGION''" ?custom ?sys]
    by (simp add: mergedEnvironment_system)
  have tab: "(name, cfg) \<in> set environments \<and> (key, rc) \<in> set (regions cfg)
      \<longrightarrow> map_of (mergedEnvironment cfg rc) ''ENVIRONMENT'' = Some name
          \<and> map_of (mergedEnvironment cfg rc) ''REGION'' = Some key"
    using env reg table_wellformed [of name cfg] table_region_keys [of name cfg key rc]
    by blast
  have cls: "containerEnvironment (snd (EcsServiceStack (Some a) cid r cfg rc))
         = Some (mergedEnvironment cfg rc)
     \<and> containerEnvironment (snd (SimpleEcsServiceStack (Some a) cid r cfg rc))
         = Some (mergedEnvironment cfg rc)
     \<and> containerEnvironment (snd (SimpleEcsServiceStack_pathRouting (Some a) cid r cfg rc))
         = Some (mergedEnvironment cfg rc)
     \<and> containerEnvironment (snd (EcsServiceCfnStack (Some a) cid r cfg rc))
         = Some ((''ENVIRONMENT'', environment cfg) # (''REGION'', region rc)
                 # containerEnvironmentVariables cfg)"
    by (simp add: EcsServiceStack_def SimpleEcsServiceStack_def
        SimpleEcsServiceStack_pathRouting_def EcsServiceCfnStack_def cfnEnvironment_def
        Object_entries_def Vpc_fromLookup_def superStack_def)
  from keys wf custom env reg tab cls show ?thesis by blast
qed

text \<open>The amended C1 at the qa environment, region us-west-2, custom key \<open>LOG_LEVEL\<close>.\<close>

theorem merged_environment_keys_and_values_witness:
  "(''qa'', qa_config) \<in> set environments
   \<and> (''us-west-2'', last (Object_values (regions qa_config))) \<in> set (regions qa_config)
   \<and> wellformed (containerEnvironmentVariables qa_config)
   \<and> map_of (containerEnvironmentVariables qa_config) ''LOG_LEVEL'' = Some ''info''
   \<and> ''ENVIRONMENT'' \<notin> set (Object_keys (containerEnvironmentVariables qa_config))
   \<and> ''REGION'' \<notin> set (Object_keys (containerEnvironmentVariables qa_config))
   \<and> map_of (mergedEnvironment qa_config (last (Object_values (regions qa_config)))) ''LOG_LEVEL''
       = Some ''info''
   \<and> map_of (mergedEnvironment qa_config (last (Object_values (regions qa_config)))) ''ENVIRONMENT''
       = Some ''qa''
   \<and> map_of (mergedEnvironment qa_config (last (Object_values (regions qa_config)))) ''REGION''
       = Some ''us-west-2''"
proof -
  let ?rc = "last (Object_values (regions qa_config))"
  have h1: "(''qa'', qa_config) \<in> set environments" by (simp add: environments_def)
  have h2: "(''us-west-2'', ?rc) \<in> set (regions qa_config)"
    by (simp add: qa_config_def Object_values_def)
  have h3: "wellformed (containerEnvironmentVariables qa_config)"
    by (simp add: qa_config_def wellformed_def)
  have h4: "map_of (containerEnvironmentVariables qa_config) ''LOG_LEVEL'' = Some ''info''"
    by (simp add: qa_config_def)
  have h5: "''ENVIRONMENT'' \<notin> set (Object_keys (containerEnvironmentVariables qa_config))"
    by (simp add: qa_config_def Object_keys_def)
  have h6: "''REGION'' \<notin> set (Object_keys (containerEnvironmentVariables qa_config))"
    by (simp add: qa_config_def Object_keys_def)
  show ?thesis
    using h1 h2 h3 h4 h5 h6
      merged_environment_keys_and_values
        [of qa_config ?rc "''LOG_LEVEL''" "''info''" "''qa''" "''us-west-2''"]
    by blast
qed

section \<open>Invariants of the configuration table (C5, C6)\<close>

text \<open>
  C5. For every environment name that is a key of the table (local, dev, qa, prod), the
  configuration the lookup returns satisfies minCapacity \<open>\<le>\<close> desiredCount \<open>\<le>\<close>
  maxCapacity.
\<close>

theorem capacity_ordered:
  "getProperty environments name = Own cfg \<Longrightarrow>
     minCapacity cfg \<le> desiredCount cfg \<and> desiredCount cfg \<le> maxCapacity cfg"
  by (auto simp: getProperty_def environments_def config_defs split: if_splits)

text \<open>C5 at prod: 5 \<open>\<le>\<close> 10 \<open>\<le>\<close> 20.\<close>

theorem capacity_ordered_witness:
  "getProperty environments ''prod'' = Own prod_config
   \<and> minCapacity prod_config \<le> desiredCount prod_config
   \<and> desiredCount prod_config \<le> maxCapacity prod_config"
proof -
  have h: "getProperty environments ''prod'' = Own prod_config"
    by (simp add: getProperty_def environments_def)
  show ?thesis using h capacity_ordered [OF h] by simp
qed

text \<open>
  C6. For every region entry of every environment of the table, the region named by the
  fourth colon-separated component of \<open>certificateArn\<close> is the entry's \<open>region\<close>.
\<close>

theorem certificate_region_matches:
  "(name, cfg) \<in> set environments \<Longrightarrow> (key, rc) \<in> set (regions cfg) \<Longrightarrow>
     arnRegion (certificateArn rc) = Some (region rc)"
  by (auto simp: environments_def config_defs arnRegion_def)

text \<open>C6 at prod, region us-west-2.\<close>

theorem certificate_region_matches_witness:
  "(''prod'', prod_config) \<in> set environments
   \<and> (''us-west-2'', last (Object_values (regions prod_config))) \<in> set (regions prod_config)
   \<and> arnRegion (certificateArn (last (Object_values (regions prod_config)))) = Some ''us-west-2''"
proof -
  let ?rc = "last (Object_values (regions prod_config))"
  have h1: "(''prod'', prod_config) \<in> set environments" by (simp add: environments_def)
  have h2: "(''us-west-2'', ?rc) \<in> set (regions prod_config)"
    by (simp add: prod_config_def Object_values_def)
  have r: "region ?rc = ''us-west-2''" by (simp add: prod_config_def Object_values_def)
  show ?thesis using h1 h2 r certificate_region_matches [OF h1 h2] by simp
qed

section \<open>Running the application: failures and defaults (C2, C3, C4, C10)\<close>

lemma getProperty_table_key:
  "name \<in> set (Object_keys environments) \<Longrightarrow>
     \<exists>cfg. getProperty environments name = Own cfg \<and> (name, cfg) \<in> set environments"
  by (auto simp: getProperty_def environments_def Object_keys_def)

lemma getProperty_unknown:
  "name \<notin> set (Object_keys environments) \<Longrightarrow> name \<notin> set objectPrototypeNames \<Longrightarrow>
     getProperty environments name = Undefined"
  by (auto simp: getProperty_def environments_def Object_keys_def)

lemma getProperty_not_own:
  "name \<notin> set (Object_keys environments) \<Longrightarrow> getProperty environments name \<noteq> Own cfg"
  by (auto simp: getProperty_def environments_def Object_keys_def)

lemma table_keys: "set (Object_keys environments) = {''local'', ''dev'', ''qa'', ''prod''}"
  by (auto simp: environments_def Object_keys_def)

lemma table_regions_nonempty: "(name, cfg) \<in> set environments \<Longrightarrow> regions cfg \<noteq> []"
  by (auto simp: environments_def config_defs)

lemma newStack_without_account:
  "fst (newStack None stackType cfg rc) = Some (LibraryError AccountNotSpecified)"
  by (simp add: newStack_def Let_def EcsServiceStack_def EcsServiceCfnStack_def
      Vpc_fromLookup_def)

lemma newStack_high_level:
  "stackType \<noteq> ''cfn'' \<Longrightarrow>
     fst (newStack (Some a) stackType cfg rc) = Some (LibraryError ZoneNameNotAvailable)"
  by (simp add: newStack_def Let_def EcsServiceStack_def Vpc_fromLookup_def)

lemma newStack_cfn: "fst (newStack (Some a) ''cfn'' cfg rc) = None"
  by (simp add: newStack_def Let_def EcsServiceCfnStack_def Vpc_fromLookup_def)

lemma newStack_succeeds:
  "fst (newStack account stackType cfg rc) = None \<Longrightarrow>
     stackType = ''cfn'' \<and> (\<exists>a. account = Some a)"
proof (cases account)
  case None
  assume "fst (newStack account stackType cfg rc) = None"
  with None newStack_without_account [of stackType cfg rc] show ?thesis by simp
next
  case (Some a)
  assume ok: "fst (newStack account stackType cfg rc) = None"
  have "stackType = ''cfn''"
  proof (rule ccontr)
    assume "stackType \<noteq> ''cfn''"
    from newStack_high_level [OF this, of a cfg rc] ok Some show False by simp
  qed
  with Some show ?thesis by simp
qed

lemma newStack_library_error:
  "fst (newStack account stackType cfg rc) = Some err \<Longrightarrow> \<exists>cause. err = LibraryError cause"
  using newStack_without_account [of stackType cfg rc] newStack_high_level [of stackType _ cfg rc]
    newStack_cfn [of _ cfg rc]
  by (cases account; cases "stackType = ''cfn''") auto

lemma forEachRegion_throws:
  "fst (newStack account stackType cfg rc) = Some err \<Longrightarrow>
     forEachRegion account stackType cfg (rc # rest) app0 = (Some err, app0)"
  by (cases "newStack account stackType cfg rc") simp

lemma forEachRegion_cfn:
  "forEachRegion (Some a) ''cfn'' cfg rcs app0
     = (None, app0 @ map (\<lambda>rc. snd (newStack (Some a) ''cfn'' cfg rc)) rcs)"
proof (induction rcs arbitrary: app0)
  case Nil
  then show ?case by simp
next
  case (Cons rc rcs)
  obtain this where n: "newStack (Some a) ''cfn'' cfg rc = (None, this)"
    using newStack_cfn [of a cfg rc] by (cases "newStack (Some a) ''cfn'' cfg rc") simp
  show ?case using n Cons.IH [of "app0 @ [this]"] by simp
qed

lemma forEachRegion_failure_keeps:
  "fst (forEachRegion account stackType cfg rcs app0) = Some err \<Longrightarrow>
     snd (forEachRegion account stackType cfg rcs app0) = app0
     \<and> (\<exists>cause. err = LibraryError cause)"
proof (cases rcs)
  case Nil
  assume "fst (forEachRegion account stackType cfg rcs app0) = Some err"
  with Nil show ?thesis by simp
next
  case (Cons rc rest)
  assume failed: "fst (forEachRegion account stackType cfg rcs app0) = Some err"
  show ?thesis
  proof (cases "fst (newStack account stackType cfg rc)")
    case (Some e)
    from forEachRegion_throws [OF Some, of rest app0] failed Cons have "e = err" by simp
    with Some newStack_library_error [of account stackType cfg rc err]
      forEachRegion_throws [OF Some, of rest app0] Cons
    show ?thesis by simp
  next
    case None
    from newStack_succeeds [OF None] obtain a where
      cfn: "stackType = ''cfn''" and a: "account = Some a" by blast
    from forEachRegion_cfn [of a cfg rcs app0] failed cfn a show ?thesis by simp
  qed
qed

lemma forEachRegion_success_all:
  "fst (forEachRegion account stackType cfg rcs app0) = None \<Longrightarrow>
     length (snd (forEachRegion account stackType cfg rcs app0)) = length app0 + length rcs"
proof (cases rcs)
  case Nil
  then show ?thesis by simp
next
  case (Cons rc rest)
  assume ok: "fst (forEachRegion account stackType cfg rcs app0) = None"
  show ?thesis
  proof (cases "fst (newStack account stackType cfg rc)")
    case (Some e)
    from forEachRegion_throws [OF Some, of rest app0] ok Cons show ?thesis by simp
  next
    case None
    from newStack_succeeds [OF None] obtain a where
      cfn: "stackType = ''cfn''" and a: "account = Some a" by blast
    show ?thesis using forEachRegion_cfn [of a cfg rcs app0] cfn a by simp
  qed
qed

lemma app_own:
  "getProperty environments (orDefault e ''dev'') = Own cfg \<Longrightarrow>
   orDefault t ''high-level'' \<in> {''high-level'', ''cfn''} \<Longrightarrow>
   app account e t
     = forEachRegion account (orDefault t ''high-level'') cfg (Object_values (regions cfg)) []"
  unfolding app_def Let_def by simp

lemma app_undefined:
  "getProperty environments (orDefault e ''dev'') = Undefined \<Longrightarrow>
   app account e t = (Some (environmentNotFound (orDefault e ''dev'')), [])"
  unfolding app_def Let_def by simp

lemma app_bad_stack_type:
  "truthy (getProperty environments (orDefault e ''dev'')) \<Longrightarrow>
   orDefault t ''high-level'' \<notin> {''high-level'', ''cfn''} \<Longrightarrow>
   app account e t = (Some (stackTypeNotSupported (orDefault t ''high-level'')), [])"
  unfolding app_def Let_def by simp

lemma app_cfn:
  "getProperty environments (orDefault e ''dev'') = Own cfg \<Longrightarrow>
   app (Some a) e (Some ''cfn'')
     = (None, map (\<lambda>rc. snd (newStack (Some a) ''cfn'' cfg rc)) (Object_values (regions cfg)))"
  using app_own [of e cfg "Some ''cfn''" "Some a"] forEachRegion_cfn [of a cfg _ "[]"]
  by simp

lemma app_failure_empty: "fst (app account e t) = Some err \<Longrightarrow> snd (app account e t) = []"
proof -
  assume failed: "fst (app account e t) = Some err"
  show ?thesis
  proof (cases "getProperty environments (orDefault e ''dev'')")
    case Undefined
    from app_undefined [OF this] show ?thesis by simp
  next
    case (Inherited n)
    then show ?thesis unfolding app_def Let_def by simp
  next
    case (Own cfg)
    show ?thesis
    proof (cases "orDefault t ''high-level'' \<in> {''high-level'', ''cfn''}")
      case False
      have "truthy (getProperty environments (orDefault e ''dev''))" using Own by simp
      from app_bad_stack_type [OF this False] show ?thesis by simp
    next
      case True
      from app_own [OF Own True] failed forEachRegion_failure_keeps show ?thesis by metis
    qed
  qed
qed

lemma app_success_own:
  "fst (app account e t) = None \<Longrightarrow>
     \<exists>cfg. getProperty environments (orDefault e ''dev'') = Own cfg
         \<and> orDefault t ''high-level'' \<in> {''high-level'', ''cfn''}"
  unfolding app_def Let_def by (auto split: if_splits jsvalue.splits)

text \<open>
  C4. When the script fails (the environment name is not in the table, or the stack type
  is not recognised), no stack has been constructed: every \<open>throw\<close> comes before the
  loop over the regions, so on error the list of constructed stacks is empty. The same
  holds when a stack constructor throws, since it is then the constructor of the first
  region. When the script does not fail, at least one stack has been constructed.
\<close>

theorem failure_constructs_no_stack:
  "(fst (app account e t) = Some err \<longrightarrow> snd (app account e t) = [])
   \<and> (fst (app account e t) = None \<longrightarrow> snd (app account e t) \<noteq> [])"
proof -
  have "snd (app account e t) \<noteq> []" if ok: "fst (app account e t) = None"
  proof -
    from app_success_own [OF ok] obtain cfg where
      own: "getProperty environments (orDefault e ''dev'') = Own cfg"
      and st: "orDefault t ''high-level'' \<in> {''high-level'', ''cfn''}" by blast
    have "orDefault e ''dev'' \<in> set (Object_keys environments)"
      using own getProperty_not_own by blast
    then obtain cfg' where "getProperty environments (orDefault e ''dev'') = Own cfg'"
      and mem: "(orDefault e ''dev'', cfg') \<in> set environments"
      using getProperty_table_key by blast
    with own have "cfg' = cfg" by simp
    with mem have ne: "regions cfg \<noteq> []" using table_regions_nonempty by blast
    have "length (snd (app account e t)) = length (Object_values (regions cfg))"
      using forEachRegion_success_all
        [of account "orDefault t ''high-level''" cfg "Object_values (regions cfg)" "[]"]
        ok app_own [OF own st, of account]
      by simp
    then show ?thesis using ne by (auto simp: Object_values_def)
  qed
  then show ?thesis using app_failure_empty by blast
qed

text \<open>
  C4 at the unknown environment \<open>nonexistent\<close> (failure) and at \<open>dev\<close> with stack type
  \<open>cfn\<close> and the account set (success).
\<close>

theorem failure_constructs_no_stack_witness:
  "fst (app (Some ''123456789012'') (Some ''nonexistent'') (Some ''cfn''))
     = Some (environmentNotFound ''nonexistent'')
   \<and> snd (app (Some ''123456789012'') (Some ''nonexistent'') (Some ''cfn'')) = []
   \<and> fst (app (Some ''123456789012'') (Some ''dev'') (Some ''cfn'')) = None
   \<and> snd (app (Some ''123456789012'') (Some ''dev'') (Some ''cfn'')) \<noteq> []"
proof -
  have u: "getProperty environments (orDefault (Some ''nonexistent'') ''dev'') = Undefined"
    by (simp add: getProperty_def environments_def objectPrototypeNames_def)
  have h1: "fst (app (Some ''123456789012'') (Some ''nonexistent'') (Some ''cfn''))
      = Some (environmentNotFound ''nonexistent'')"
    using app_undefined [OF u, of "Some ''123456789012''" "Some ''cfn''"] by simp
  have o: "getProperty environments (orDefault (Some ''dev'') ''dev'') = Own dev_config"
    by (simp add: getProperty_def environments_def)
  have h2: "fst (app (Some ''123456789012'') (Some ''dev'') (Some ''cfn'')) = None"
    using app_cfn [OF o, of "''123456789012''"] by simp
  show ?thesis
    using h1 h2
      failure_constructs_no_stack
        [of "Some ''123456789012''" "Some ''nonexistent''" "Some ''cfn''"
            "environmentNotFound ''nonexistent''"]
      failure_constructs_no_stack
        [of "Some ''123456789012''" "Some ''dev''" "Some ''cfn''"
            "environmentNotFound ''nonexistent''"]
    by blast
qed

lemma dev_is_key: "''dev'' \<in> set (Object_keys environments)"
  by (simp add: table_keys)

lemma key_nonempty: "name \<in> set (Object_keys environments) \<Longrightarrow> name \<noteq> []"
  by (auto simp: table_keys)

lemma app_empty_environment: "app account (Some []) t = app account (Some ''dev'') t"
  unfolding app_def by simp

lemma app_empty_stack_type: "app account e (Some []) = app account e (Some ''high-level'')"
  unfolding app_def by simp

lemma app_dev_cfn_ids:
  "fst (app (Some a) (Some ''dev'') (Some ''cfn'')) = None
   \<and> map stackId (snd (app (Some a) (Some ''dev'') (Some ''cfn'')))
       = [''mcp-gw-dev-us-east-1-cfn'']"
proof -
  have o: "getProperty environments (orDefault (Some ''dev'') ''dev'') = Own dev_config"
    by (simp add: getProperty_def environments_def)
  show ?thesis
    unfolding app_cfn [OF o]
    by (simp add: Object_values_def newStack_def EcsServiceCfnStack_def Vpc_fromLookup_def
        superStack_def dev_config_def)
qed

lemma app_table_key_library_error:
  assumes key: "name \<in> set (Object_keys environments)"
    and st: "stackType \<in> {''high-level'', ''cfn''}"
    and failed: "fst (app account (Some name) (Some stackType)) = Some err"
  shows "\<exists>cause. err = LibraryError cause"
proof -
  have n: "orDefault (Some name) ''dev'' = name" using key key_nonempty by simp
  from getProperty_table_key [OF key] obtain cfg where
    own: "getProperty environments (orDefault (Some name) ''dev'') = Own cfg" using n by auto
  have t: "orDefault (Some stackType) ''high-level'' = stackType" using st by auto
  have "orDefault (Some stackType) ''high-level'' \<in> {''high-level'', ''cfn''}" using st t by simp
  from app_own [OF own this, of account] failed forEachRegion_failure_keeps
  show ?thesis by metis
qed

text \<open>
  C2, as stated, fails at two environment names that are not keys of the table. The empty
  name is falsy, so \<open>|| 'dev'\<close> replaces it: with stack type \<open>cfn\<close> and the account set,
  the run succeeds and constructs the dev stack. The name \<open>constructor\<close> is found on
  \<open>Object.prototype\<close>, passes the \<open>!environmentConfig\<close> test, and the script ends with a
  TypeError instead of the not-found error.
\<close>

theorem unknown_environment_counterexample:
  "[] \<notin> set (Object_keys environments)
   \<and> fst (app (Some ''123456789012'') (Some []) (Some ''cfn'')) = None
   \<and> map stackId (snd (app (Some ''123456789012'') (Some []) (Some ''cfn'')))
       = [''mcp-gw-dev-us-east-1-cfn'']
   \<and> ''constructor'' \<notin> set (Object_keys environments)
   \<and> app (Some ''123456789012'') (Some ''constructor'') (Some ''cfn'')
       = (Some (TypeError ''Cannot convert undefined or null to object''), [])
   \<and> fst (app (Some ''123456789012'') (Some ''constructor'') (Some ''cfn''))
       \<noteq> Some (environmentNotFound ''constructor'')"
proof -
  have a: "[] \<notin> set (Object_keys environments)" by (simp add: table_keys)
  have b: "''constructor'' \<notin> set (Object_keys environments)" by (simp add: table_keys)
  have i: "getProperty environments ''constructor'' = Inherited ''constructor''"
    by (simp add: getProperty_def environments_def objectPrototypeNames_def)
  have c: "app (Some ''123456789012'') (Some ''constructor'') (Some ''cfn'')
       = (Some (TypeError ''Cannot convert undefined or null to object''), [])"
    unfolding app_def Let_def using i by simp
  have d: "fst (app (Some ''123456789012'') (Some ''constructor'') (Some ''cfn''))
       \<noteq> Some (environmentNotFound ''constructor'')"
    using c by (simp add: environmentNotFound_def)
  show ?thesis
    using a b c d app_dev_cfn_ids [of "''123456789012''"] by (simp add: app_empty_environment)
qed

text \<open>
  C2, amended. For every non-empty environment name that is neither a key of the table nor
  a property name of \<open>Object.prototype\<close>, and every stack type (recognised or not,
  present or absent), the script fails with the error "Environment '<name>' not found in
  configuration" and constructs no stack. An empty environment name is treated as an
  absent one: the run is that of \<open>dev\<close>.
\<close>

theorem unknown_environment_rejected:
  "(name \<noteq> [] \<and> name \<notin> set (Object_keys environments) \<and> name \<notin> set objectPrototypeNames
      \<longrightarrow> app account (Some name) t = (Some (environmentNotFound name), []))
   \<and> app account (Some []) t = app account (Some ''dev'') t"
proof -
  have "app account (Some name) t = (Some (environmentNotFound name), [])"
    if "name \<noteq> []" "name \<notin> set (Object_keys environments)" "name \<notin> set objectPrototypeNames"
  proof -
    have n: "orDefault (Some name) ''dev'' = name" using that by simp
    have "getProperty environments (orDefault (Some name) ''dev'') = Undefined"
      using that getProperty_unknown n by simp
    from app_undefined [OF this, of account t] show ?thesis using n by simp
  qed
  then show ?thesis using app_empty_environment by blast
qed

text \<open>
  The amended C2 at the name \<open>nonexistent\<close> with stack type \<open>high-level\<close>.
\<close>

theorem unknown_environment_rejected_witness:
  "''nonexistent'' \<noteq> [] \<and> ''nonexistent'' \<notin> set (Object_keys environments)
   \<and> ''nonexistent'' \<notin> set objectPrototypeNames
   \<and> app (Some ''123456789012'') (Some ''nonexistent'') (Some ''high-level'')
       = (Some (environmentNotFound ''nonexistent''), [])"
proof -
  have h1: "''nonexistent'' \<noteq> []" by simp
  have h2: "''nonexistent'' \<notin> set (Object_keys environments)" by (simp add: table_keys)
  have h3: "''nonexistent'' \<notin> set objectPrototypeNames" by (simp add: objectPrototypeNames_def)
  show ?thesis
    using h1 h2 h3
      unknown_environment_rejected
        [of "''nonexistent''" "Some ''123456789012''" "Some ''high-level''"]
    by blast
qed

text \<open>
  C3, as stated, fails in both halves. The empty stack type is a string outside the two
  recognised literals, but it is falsy, so \<open>|| 'high-level'\<close> replaces it: the run is
  that of \<open>high-level\<close> and the stack-type error is not raised. And a recognised literal
  does fail when \<open>CDK_DEFAULT_ACCOUNT\<close> is not set: the VPC lookup of the first stack
  refuses to run without an account.
\<close>

theorem unsupported_stack_type_counterexample:
  "[] \<notin> set [''high-level'', ''cfn'']
   \<and> app (Some ''123456789012'') (Some ''dev'') (Some [])
       = app (Some ''123456789012'') (Some ''dev'') (Some ''high-level'')
   \<and> fst (app (Some ''123456789012'') (Some ''dev'') (Some []))
       \<noteq> Some (stackTypeNotSupported [])
   \<and> app None (Some ''dev'') (Some ''cfn'') = (Some (LibraryError AccountNotSpecified), [])"
proof -
  have o: "getProperty environments (orDefault (Some ''dev'') ''dev'') = Own dev_config"
    by (simp add: getProperty_def environments_def)
  have r: "Object_values (regions dev_config) \<noteq> []"
    by (simp add: Object_values_def dev_config_def)
  then obtain rc rest where rcs: "Object_values (regions dev_config) = rc # rest"
    by (cases "Object_values (regions dev_config)") auto
  have a: "app None (Some ''dev'') (Some ''cfn'') = (Some (LibraryError AccountNotSpecified), [])"
    using app_own [OF o, of "Some ''cfn''" None] rcs
      forEachRegion_throws [OF newStack_without_account, of "''cfn''" dev_config rc rest "[]"]
    by simp
  have b: "fst (app (Some ''123456789012'') (Some ''dev'') (Some []))
       \<noteq> Some (stackTypeNotSupported [])"
  proof
    assume f: "fst (app (Some ''123456789012'') (Some ''dev'') (Some []))
       = Some (stackTypeNotSupported [])"
    then have "fst (app (Some ''123456789012'') (Some ''dev'') (Some ''high-level''))
       = Some (stackTypeNotSupported [])" by (simp add: app_empty_stack_type)
    from app_table_key_library_error [OF dev_is_key _ this]
    show False by (simp add: stackTypeNotSupported_def)
  qed
  show ?thesis using a b by (simp add: app_empty_stack_type)
qed

text \<open>
  C3, amended. For every environment name of the table and every non-empty stack type
  other than \<open>high-level\<close> and \<open>cfn\<close>, the script fails with the error "Stack type
  '<type>' not supported. Use 'high-level' or 'cfn'" and constructs no stack. For each of
  the two recognised literals neither the stack-type error nor the not-found error is
  raised, and with \<open>cfn\<close> and the account set the run does not fail. An empty stack type
  is treated as an absent one, that is as \<open>high-level\<close>.
\<close>

theorem unsupported_stack_type_rejected:
  "name \<in> set (Object_keys environments) \<Longrightarrow>
     (stackType \<noteq> [] \<and> stackType \<noteq> ''high-level'' \<and> stackType \<noteq> ''cfn''
        \<longrightarrow> app account (Some name) (Some stackType)
              = (Some (stackTypeNotSupported stackType), []))
     \<and> fst (app account (Some name) (Some ''high-level'')) \<noteq> Some (stackTypeNotSupported s)
     \<and> fst (app account (Some name) (Some ''high-level'')) \<noteq> Some (environmentNotFound s)
     \<and> fst (app account (Some name) (Some ''cfn'')) \<noteq> Some (stackTypeNotSupported s)
     \<and> fst (app account (Some name) (Some ''cfn'')) \<noteq> Some (environmentNotFound s)
     \<and> fst (app (Some a) (Some name) (Some ''cfn'')) = None
     \<and> app account (Some name) (Some []) = app account (Some name) (Some ''high-level'')"
proof -
  assume key: "name \<in> set (Object_keys environments)"
  then have n: "orDefault (Some name) ''dev'' = name" using key_nonempty by simp
  from getProperty_table_key [OF key] obtain cfg where
    own: "getProperty environments (orDefault (Some name) ''dev'') = Own cfg" using n by auto
  have bad: "app account (Some name) (Some stackType)
      = (Some (stackTypeNotSupported stackType), [])"
    if "stackType \<noteq> []" "stackType \<noteq> ''high-level''" "stackType \<noteq> ''cfn''"
  proof -
    have t: "truthy (getProperty environments (orDefault (Some name) ''dev''))" using own by simp
    have "orDefault (Some stackType) ''high-level'' \<notin> {''high-level'', ''cfn''}" using that by simp
    from app_bad_stack_type [OF t this, of account] show ?thesis using that by simp
  qed
  have lib: "fst (app account (Some name) (Some l)) \<noteq> Some (stackTypeNotSupported s)
      \<and> fst (app account (Some name) (Some l)) \<noteq> Some (environmentNotFound s)"
    if l: "l \<in> {''high-level'', ''cfn''}" for l
  proof (cases "fst (app account (Some name) (Some l))")
    case None
    then show ?thesis by simp
  next
    case (Some err)
    from app_table_key_library_error [OF key l Some] obtain cause where
      "err = LibraryError cause" by blast
    with Some show ?thesis by (simp add: stackTypeNotSupported_def environmentNotFound_def)
  qed
  have cfn: "fst (app (Some a) (Some name) (Some ''cfn'')) = None"
    using app_cfn [OF own, of a] by simp
  show ?thesis
    using bad lib [of "''high-level''"] lib [of "''cfn''"] cfn app_empty_stack_type by simp
qed

text \<open>
  The amended C3 at environment \<open>dev\<close> and stack type \<open>bogus-mode\<close>.
\<close>

theorem unsupported_stack_type_rejected_witness:
  "''dev'' \<in> set (Object_keys environments)
   \<and> ''bogus-mode'' \<noteq> [] \<and> ''bogus-mode'' \<noteq> ''high-level'' \<and> ''bogus-mode'' \<noteq> ''cfn''
   \<and> app (Some ''123456789012'') (Some ''dev'') (Some ''bogus-mode'')
       = (Some (stackTypeNotSupported ''bogus-mode''), [])
   \<and> fst (app (Some ''123456789012'') (Some ''dev'') (Some ''cfn'')) = None"
proof -
  have h: "''dev'' \<in> set (Object_keys environments)" by (rule dev_is_key)
  have g: "''bogus-mode'' \<noteq> [] \<and> ''bogus-mode'' \<noteq> ''high-level'' \<and> ''bogus-mode'' \<noteq> ''cfn''"
    by simp
  show ?thesis
    using h g
      unsupported_stack_type_rejected
        [OF h, of "''bogus-mode''" "Some ''123456789012''" _ "''123456789012''"]
    by blast
qed




section \<open>Resolving qa (C7)\<close>

text \<open>
  C7. The name \<open>qa\<close> resolves to a configuration with exactly two region entries,
  us-east-1 and us-west-2 in this order, each with its certificate ARN and hosted zone id,
  and with minCapacity 2, maxCapacity 10 and desiredCount 3. With stack type \<open>cfn\<close> and
  the account set, the script constructs exactly one stack per region entry, carrying that
  region's certificate and hosted zone, desired count 3 and scaling bounds 2 and 10. With
  stack type \<open>high-level\<close>, or with no stack type, however, the constructor of the first
  region's stack ends with the library's error at the alias record and no stack is
  constructed, where the claim asks for one stack per region.
\<close>

theorem qa_resolution:
  "getProperty environments ''qa'' = Own qa_config
   \<and> map (\<lambda>(key, rc). (key, region rc, certificateArn rc, hostedZoneId rc))
         (Object_entries (regions qa_config))
       = [(''us-east-1'', ''us-east-1'',
           ''arn:aws:acm:us-east-1:123456789012:certificate/qa-xxxxxxxxx'', ''Z1234567890123''),
          (''us-west-2'', ''us-west-2'',
           ''arn:aws:acm:us-west-2:123456789012:certificate/qa-xxxxxxxxx'', ''Z1234567890123'')]
   \<and> minCapacity qa_config = 2 \<and> maxCapacity qa_config = 10 \<and> desiredCount qa_config = 3
   \<and> fst (app (Some ''123456789012'') (Some ''qa'') (Some ''cfn'')) = None
   \<and> map (\<lambda>s. (stackId s, stackClass s, stackRegion s, importedCertificateArn s,
                 importedHostedZoneId s, serviceDesiredCount s, scalableTarget s))
         (snd (app (Some ''123456789012'') (Some ''qa'') (Some ''cfn'')))
       = [(''mcp-gw-qa-us-east-1-cfn'', EcsServiceCfnStackClass, ''us-east-1'',
           Some ''arn:aws:acm:us-east-1:123456789012:certificate/qa-xxxxxxxxx'',
           Some ''Z1234567890123'', Some 3,
           Some \<lparr>targetMinCapacity = 2, targetMaxCapacity = 10\<rparr>),
          (''mcp-gw-qa-us-west-2-cfn'', EcsServiceCfnStackClass, ''us-west-2'',
           Some ''arn:aws:acm:us-west-2:123456789012:certificate/qa-xxxxxxxxx'',
           Some ''Z1234567890123'', Some 3,
           Some \<lparr>targetMinCapacity = 2, targetMaxCapacity = 10\<rparr>)]
   \<and> app (Some ''123456789012'') (Some ''qa'') (Some ''high-level'')
       = (Some (LibraryError ZoneNameNotAvailable), [])
   \<and> app (Some ''123456789012'') (Some ''qa'') None
       = (Some (LibraryError ZoneNameNotAvailable), [])"
proof -
  have o: "getProperty environments (orDefault (Some ''qa'') ''dev'') = Own qa_config"
    by (simp add: getProperty_def environments_def)
  have a: "getProperty environments ''qa'' = Own qa_config" using o by simp
  have b: "map (\<lambda>(key, rc). (key, region rc, certificateArn rc, hostedZoneId rc))
         (Object_entries (regions qa_config))
       = [(''us-east-1'', ''us-east-1'',
           ''arn:aws:acm:us-east-1:123456789012:certificate/qa-xxxxxxxxx'', ''Z1234567890123''),
          (''us-west-2'', ''us-west-2'',
           ''arn:aws:acm:us-west-2:123456789012:certificate/qa-xxxxxxxxx'', ''Z1234567890123'')]"
    by (simp add: qa_config_def Object_entries_def)
  have c: "minCapacity qa_config = 2 \<and> maxCapacity qa_config = 10 \<and> desiredCount qa_config = 3"
    by (simp add: qa_config_def)
  have cf: "app (Some ''123456789012'') (Some ''qa'') (Some ''cfn'')
      = (None, map (\<lambda>rc. snd (newStack (Some ''123456789012'') ''cfn'' qa_config rc))
                 (Object_values (regions qa_config)))"
    by (rule app_cfn [OF o])
  have e: "map (\<lambda>s. (stackId s, stackClass s, stackRegion s, importedCertificateArn s,
                 importedHostedZoneId s, serviceDesiredCount s, scalableTarget s))
         (snd (app (Some ''123456789012'') (Some ''qa'') (Some ''cfn'')))
       = [(''mcp-gw-qa-us-east-1-cfn'', EcsServiceCfnStackClass, ''us-east-1'',
           Some ''arn:aws:acm:us-east-1:123456789012:certificate/qa-xxxxxxxxx'',
           Some ''Z1234567890123'', Some 3,
           Some \<lparr>targetMinCapacity = 2, targetMaxCapacity = 10\<rparr>),
          (''mcp-gw-qa-us-west-2-cfn'', EcsServiceCfnStackClass, ''us-west-2'',
           Some ''arn:aws:acm:us-west-2:123456789012:certificate/qa-xxxxxxxxx'',
           Some ''Z1234567890123'', Some 3,
           Some \<lparr>targetMinCapacity = 2, targetMaxCapacity = 10\<rparr>)]"
    unfolding cf
    by (simp add: Object_values_def newStack_def EcsServiceCfnStack_def Vpc_fromLookup_def
        superStack_def qa_config_def)
  have g: "fst (app (Some ''123456789012'') (Some ''qa'') (Some ''cfn'')) = None"
    unfolding cf by simp
  have r: "Object_values (regions qa_config) \<noteq> []"
    by (simp add: Object_values_def qa_config_def)
  then obtain rc rest where rcs: "Object_values (regions qa_config) = rc # rest"
    by (cases "Object_values (regions qa_config)") auto
  have hl: "app (Some ''123456789012'') (Some ''qa'') (Some ''high-level'')
       = (Some (LibraryError ZoneNameNotAvailable), [])"
    using app_own [OF o, of "Some ''high-level''" "Some ''123456789012''"] rcs
      forEachRegion_throws
        [OF newStack_high_level, of "''high-level''" "''123456789012''" qa_config rc rest "[]"]
    by simp
  have df: "app (Some ''123456789012'') (Some ''qa'') None
       = app (Some ''123456789012'') (Some ''qa'') (Some ''high-level'')"
    unfolding app_def by simp
  from a b c e g hl df show ?thesis by simp
qed

section \<open>Auto scaling (C8)\<close>

lemma cfn_stack_tracks:
  "tracksCpuAndMemory cfg (snd (EcsServiceCfnStack (Some a) cid r cfg rc))"
  by (simp add: tracksCpuAndMemory_def EcsServiceCfnStack_def Vpc_fromLookup_def
      superStack_def)

lemma app_stacks_track:
  assumes own: "getProperty environments (orDefault e ''dev'') = Own cfg"
    and mem: "s \<in> set (snd (app account e t))"
  shows "tracksCpuAndMemory cfg s"
proof (cases "orDefault t ''high-level'' \<in> {''high-level'', ''cfn''}")
  case False
  have "truthy (getProperty environments (orDefault e ''dev''))" using own by simp
  from app_bad_stack_type [OF this False, of account] mem show ?thesis by simp
next
  case True
  note run = app_own [OF own True, of account]
  show ?thesis
  proof (cases "fst (app account e t)")
    case (Some err)
    from app_failure_empty [OF Some] mem show ?thesis by simp
  next
    case None
    let ?rcs = "Object_values (regions cfg)"
    have ne: "?rcs \<noteq> []" using mem run by (cases ?rcs) auto
    then obtain rc rest where rcs: "?rcs = rc # rest" by (cases ?rcs) auto
    have ok: "fst (newStack account (orDefault t ''high-level'') cfg rc) = None"
    proof (cases "fst (newStack account (orDefault t ''high-level'') cfg rc)")
      case (Some err)
      from forEachRegion_throws [OF Some, of rest "[]"] run rcs None show ?thesis by simp
    qed simp
    from newStack_succeeds [OF ok] obtain a where
      cfn: "orDefault t ''high-level'' = ''cfn''" and a: "account = Some a" by blast
    from run cfn a forEachRegion_cfn [of a cfg ?rcs "[]"] mem
    obtain rc' where "s = snd (newStack (Some a) ''cfn'' cfg rc')" by auto
    then show ?thesis using cfn_stack_tracks by (simp add: newStack_def Let_def)
  qed
qed

text \<open>
  C8, as stated, fails for the SimpleEcsServiceStack of lib/simple-ecs-service-stack.ts:
  it registers no scalable target and no scaling policy, and runs a fixed desired count
  of 1 whatever the configuration says (3 for qa).
\<close>

theorem simple_stack_no_scaling_counterexample:
  "\<not> tracksCpuAndMemory qa_config
       (snd (SimpleEcsServiceStack (Some ''123456789012'') ''mcp-gw-qa-simple-us-east-1''
               ''us-east-1'' qa_config (hd (Object_values (regions qa_config)))))
   \<and> scalableTarget
       (snd (SimpleEcsServiceStack (Some ''123456789012'') ''mcp-gw-qa-simple-us-east-1''
               ''us-east-1'' qa_config (hd (Object_values (regions qa_config))))) = None
   \<and> scalingPolicies
       (snd (SimpleEcsServiceStack (Some ''123456789012'') ''mcp-gw-qa-simple-us-east-1''
               ''us-east-1'' qa_config (hd (Object_values (regions qa_config))))) = []
   \<and> serviceDesiredCount
       (snd (SimpleEcsServiceStack (Some ''123456789012'') ''mcp-gw-qa-simple-us-east-1''
               ''us-east-1'' qa_config (hd (Object_values (regions qa_config))))) = Some 1
   \<and> desiredCount qa_config = 3"
  by (simp add: tracksCpuAndMemory_def SimpleEcsServiceStack_def Vpc_fromLookup_def
      superStack_def qa_config_def)

text \<open>
  C8, amended. For every configuration and region, EcsServiceStack and EcsServiceCfnStack,
  once past the VPC lookup, configure exactly two target-tracking policies, CPU
  utilisation at 70 and memory utilisation at 80, each with scale-in and scale-out
  cooldowns of 300 seconds, on a scalable target whose bounds are the environment's
  minCapacity and maxCapacity; so does every stack the application constructs. The
  host-routing SimpleEcsServiceStack configures no auto scaling and a fixed desired count
  of 1.
\<close>

theorem scaling_policies_by_stack_class:
  "tracksCpuAndMemory cfg (snd (EcsServiceStack (Some a) cid r cfg rc))
   \<and> tracksCpuAndMemory cfg (snd (EcsServiceCfnStack (Some a) cid r cfg rc))
   \<and> scalableTarget (snd (SimpleEcsServiceStack account cid r cfg rc)) = None
   \<and> scalingPolicies (snd (SimpleEcsServiceStack account cid r cfg rc)) = []
   \<and> serviceDesiredCount (snd (SimpleEcsServiceStack (Some a) cid r cfg rc)) = Some 1
   \<and> (getProperty environments (orDefault e ''dev'') = Own cfg
        \<and> s \<in> set (snd (app account e t))
      \<longrightarrow> tracksCpuAndMemory cfg s)"
proof -
  have a: "tracksCpuAndMemory cfg (snd (EcsServiceStack (Some a) cid r cfg rc))"
    by (simp add: tracksCpuAndMemory_def EcsServiceStack_def Vpc_fromLookup_def superStack_def)
  have b: "tracksCpuAndMemory cfg (snd (EcsServiceCfnStack (Some a) cid r cfg rc))"
    by (rule cfn_stack_tracks)
  have d: "scalableTarget (snd (SimpleEcsServiceStack account cid r cfg rc)) = None
     \<and> scalingPolicies (snd (SimpleEcsServiceStack account cid r cfg rc)) = []"
    by (cases account)
      (simp_all add: SimpleEcsServiceStack_def Vpc_fromLookup_def superStack_def)
  have f: "serviceDesiredCount (snd (SimpleEcsServiceStack (Some a) cid r cfg rc)) = Some 1"
    by (simp add: SimpleEcsServiceStack_def Vpc_fromLookup_def superStack_def)
  from a b d f app_stacks_track show ?thesis by blast
qed

text \<open>
  The amended C8 at the last stack constructed for prod with stack type \<open>cfn\<close>.
\<close>

theorem scaling_policies_by_stack_class_witness:
  "getProperty environments (orDefault (Some ''prod'') ''dev'') = Own prod_config
   \<and> last (snd (app (Some ''123456789012'') (Some ''prod'') (Some ''cfn'')))
       \<in> set (snd (app (Some ''123456789012'') (Some ''prod'') (Some ''cfn'')))
   \<and> tracksCpuAndMemory prod_config
       (last (snd (app (Some ''123456789012'') (Some ''prod'') (Some ''cfn''))))
   \<and> stackId (last (snd (app (Some ''123456789012'') (Some ''prod'') (Some ''cfn''))))
       = ''mcp-gw-prod-us-west-2-cfn''"
proof -
  let ?run = "app (Some ''123456789012'') (Some ''prod'') (Some ''cfn'')"
  have o: "getProperty environments (orDefault (Some ''prod'') ''dev'') = Own prod_config"
    by (simp add: getProperty_def environments_def)
  have s: "snd ?run
      = map (\<lambda>rc. snd (newStack (Some ''123456789012'') ''cfn'' prod_config rc))
          (Object_values (regions prod_config))"
    using app_cfn [OF o, of "''123456789012''"] by simp
  have n: "snd ?run \<noteq> []"
    unfolding s by (simp add: Object_values_def prod_config_def)
  then have m: "last (snd ?run) \<in> set (snd ?run)" by simp
  have i: "stackId (last (snd ?run)) = ''mcp-gw-prod-us-west-2-cfn''"
    unfolding s
    by (simp add: Object_values_def newStack_def EcsServiceCfnStack_def Vpc_fromLookup_def
        superStack_def prod_config_def)
  show ?thesis
    using o m i
      scaling_policies_by_stack_class
        [of prod_config _ _ _ _ "Some ''123456789012''" "Some ''prod''" "last (snd ?run)"
            "Some ''cfn''"]
    by blast
qed

section \<open>The deployment script (C9)\<close>

lemma deploy_sh_runs:
  assumes "positional args 1 \<in> {''dev'', ''qa'', ''prod''}"
    and "withDefault (positional args 2) ''deploy'' \<in> {''deploy'', ''diff'', ''destroy'', ''synth''}"
    and "withDefault (positional args 3) ''high-level'' \<in> {''high-level'', ''cfn''}"
  shows "invoked (deploy_sh tool script args)
           = [[''npx'', ''cdk'', withDefault (positional args 2) ''deploy'']
              @ (if withDefault (positional args 2) ''deploy'' \<in> {''deploy'', ''destroy''}
                 then [''--all''] else [])
              @ [''-c'', ''environment='' @ positional args 1]
              @ (if withDefault (positional args 3) ''high-level'' = ''cfn''
                 then [''-c'', ''stackType=cfn''] else [])
              @ (if withDefault (positional args 2) ''deploy'' = ''deploy''
                 then [''--require-approval'', ''never'']
                 else if withDefault (positional args 2) ''deploy'' = ''destroy''
                 then [''--force''] else [])]
         \<and> exitCode (deploy_sh tool script args)
           = tool (hd (invoked (deploy_sh tool script args)))"
proof -
  have e: "positional args 1 \<noteq> []" using assms(1) by auto
  show ?thesis
    using assms e unfolding deploy_sh_def Let_def runCdk_def
    by (elim insertE emptyE) simp_all
qed

lemma deploy_sh_rejects:
  assumes "positional args 1 \<notin> {''dev'', ''qa'', ''prod''}
      \<or> withDefault (positional args 2) ''deploy'' \<notin> {''deploy'', ''diff'', ''destroy'', ''synth''}
      \<or> withDefault (positional args 3) ''high-level'' \<notin> {''high-level'', ''cfn''}"
  shows "invoked (deploy_sh tool script args) = [] \<and> exitCode (deploy_sh tool script args) = 1"
  using assms unfolding deploy_sh_def Let_def runCdk_def by auto

text \<open>
  C9, as stated, fails for the environment \<open>local\<close>: the script accepts only dev, qa
  and prod, so \<open>deploy.sh local deploy\<close> prints an error and exits with status 1
  without invoking the provisioning tool, although the tool would have succeeded.
\<close>

theorem deploy_sh_local_counterexample:
  "deploy_sh toolSucceeds ''./scripts/deploy.sh'' [''local'', ''deploy'']
     = \<lparr> exitCode = 1, invoked = [],
         printed = [''Error: Environment must be one of: dev, qa, prod''] \<rparr>"
  by (simp add: deploy_sh_def positional_def withDefault_def)

text \<open>
  C9, amended. When the environment is one of dev, qa, prod, the action (default
  \<open>deploy\<close>) one of deploy, diff, destroy, synth, and the stack type (default
  \<open>high-level\<close>) one of high-level, cfn, the script invokes exactly one command and exits
  with that command's status. The command is \<open>npx cdk <action>\<close>, then \<open>--all\<close> for
  deploy and destroy, then \<open>-c environment=<environment>\<close>, then \<open>-c stackType=cfn\<close>
  when the stack type is cfn, then \<open>--require-approval never\<close> for deploy or \<open>--force\<close>
  for destroy. Otherwise the script invokes nothing and exits with status 1. So it exits
  non-zero exactly when the environment, action or stack type is outside these sets or the
  invoked tool fails. The environment \<open>local\<close> is always rejected.
\<close>

theorem deploy_sh_accepts_and_rejects:
  "(positional args 1 \<in> {''dev'', ''qa'', ''prod''}
      \<and> withDefault (positional args 2) ''deploy'' \<in> {''deploy'', ''diff'', ''destroy'', ''synth''}
      \<and> withDefault (positional args 3) ''high-level'' \<in> {''high-level'', ''cfn''}
    \<longrightarrow> invoked (deploy_sh tool script args)
           = [[''npx'', ''cdk'', withDefault (positional args 2) ''deploy'']
              @ (if withDefault (positional args 2) ''deploy'' \<in> {''deploy'', ''destroy''}
                 then [''--all''] else [])
              @ [''-c'', ''environment='' @ positional args 1]
              @ (if withDefault (positional args 3) ''high-level'' = ''cfn''
                 then [''-c'', ''stackType=cfn''] else [])
              @ (if withDefault (positional args 2) ''deploy'' = ''deploy''
                 then [''--require-approval'', ''never'']
                 else if withDefault (positional args 2) ''deploy'' = ''destroy''
                 then [''--force''] else [])]
         \<and> exitCode (deploy_sh tool script args)
           = tool (hd (invoked (deploy_sh tool script args))))
   \<and> (positional args 1 \<notin> {''dev'', ''qa'', ''prod''}
        \<or> withDefault (positional args 2) ''deploy'' \<notin> {''deploy'', ''diff'', ''destroy'', ''synth''}
        \<or> withDefault (positional args 3) ''high-level'' \<notin> {''high-level'', ''cfn''}
      \<longrightarrow> invoked (deploy_sh tool script args) = []
          \<and> exitCode (deploy_sh tool script args) = 1)
   \<and> (exitCode (deploy_sh tool script args) \<noteq> 0 \<longleftrightarrow>
        positional args 1 \<notin> {''dev'', ''qa'', ''prod''}
        \<or> withDefault (positional args 2) ''deploy'' \<notin> {''deploy'', ''diff'', ''destroy'', ''synth''}
        \<or> withDefault (positional args 3) ''high-level'' \<notin> {''high-level'', ''cfn''}
        \<or> (\<exists>cmd. invoked (deploy_sh tool script args) = [cmd] \<and> tool cmd \<noteq> 0))
   \<and> invoked (deploy_sh tool script (''local'' # rest)) = []
   \<and> exitCode (deploy_sh tool script (''local'' # rest)) = 1"
proof -
  let ?ok = "positional args 1 \<in> {''dev'', ''qa'', ''prod''}
      \<and> withDefault (positional args 2) ''deploy'' \<in> {''deploy'', ''diff'', ''destroy'', ''synth''}
      \<and> withDefault (positional args 3) ''high-level'' \<in> {''high-level'', ''cfn''}"
  let ?run = "deploy_sh tool script args"
  have run: "?ok \<longrightarrow> invoked ?run
           = [[''npx'', ''cdk'', withDefault (positional args 2) ''deploy'']
              @ (if withDefault (positional args 2) ''deploy'' \<in> {''deploy'', ''destroy''}
                 then [''--all''] else [])
              @ [''-c'', ''environment='' @ positional args 1]
              @ (if withDefault (positional args 3) ''high-level'' = ''cfn''
                 then [''-c'', ''stackType=cfn''] else [])
              @ (if withDefault (positional args 2) ''deploy'' = ''deploy''
                 then [''--require-approval'', ''never'']
                 else if withDefault (positional args 2) ''deploy'' = ''destroy''
                 then [''--force''] else [])]
         \<and> exitCode ?run = tool (hd (invoked ?run))"
    using deploy_sh_runs [of args tool script] by blast
  have rej: "\<not> ?ok \<longrightarrow> invoked ?run = [] \<and> exitCode ?run = 1"
    using deploy_sh_rejects [of args tool script] by blast
  have iff: "exitCode ?run \<noteq> 0 \<longleftrightarrow>
        \<not> ?ok \<or> (\<exists>cmd. invoked ?run = [cmd] \<and> tool cmd \<noteq> 0)"
  proof (cases ?ok)
    case True
    with run obtain cmd where "invoked ?run = [cmd]" "exitCode ?run = tool (hd (invoked ?run))"
      by blast
    then show ?thesis using True by auto
  next
    case False
    with rej have "exitCode ?run = 1" and "invoked ?run = []" by blast+
    then have "exitCode ?run \<noteq> 0" by simp
    with False show ?thesis by blast
  qed
  have loc: "invoked (deploy_sh tool script (''local'' # rest)) = []
     \<and> exitCode (deploy_sh tool script (''local'' # rest)) = 1"
    by (rule deploy_sh_rejects) (simp add: positional_def)
  from run rej iff loc show ?thesis by blast
qed

text \<open>
  The amended C9 at \<open>deploy.sh qa diff cfn\<close> and \<open>deploy.sh prod\<close>, with a failing and
  with a succeeding tool, and at the unknown action of \<open>deploy.sh qa status\<close>.
\<close>

theorem deploy_sh_accepts_and_rejects_witness:
  "positional [''qa'', ''diff'', ''cfn''] 1 \<in> {''dev'', ''qa'', ''prod''}
   \<and> withDefault (positional [''qa'', ''diff'', ''cfn''] 2) ''deploy''
       \<in> {''deploy'', ''diff'', ''destroy'', ''synth''}
   \<and> withDefault (positional [''qa'', ''diff'', ''cfn''] 3) ''high-level'' \<in> {''high-level'', ''cfn''}
   \<and> invoked (deploy_sh toolFails ''./scripts/deploy.sh'' [''qa'', ''diff'', ''cfn''])
       = [[''npx'', ''cdk'', ''diff'', ''-c'', ''environment=qa'', ''-c'', ''stackType=cfn'']]
   \<and> exitCode (deploy_sh toolFails ''./scripts/deploy.sh'' [''qa'', ''diff'', ''cfn'']) = 1
   \<and> exitCode (deploy_sh toolSucceeds ''./scripts/deploy.sh'' [''qa'', ''diff'', ''cfn'']) = 0
   \<and> invoked (deploy_sh toolSucceeds ''./scripts/deploy.sh'' [''prod''])
       = [[''npx'', ''cdk'', ''deploy'', ''--all'', ''-c'', ''environment=prod'',
           ''--require-approval'', ''never'']]
   \<and> positional [''qa'', ''status''] 1 \<in> {''dev'', ''qa'', ''prod''}
   \<and> withDefault (positional [''qa'', ''status''] 2) ''deploy''
       \<notin> {''deploy'', ''diff'', ''destroy'', ''synth''}
   \<and> invoked (deploy_sh toolSucceeds ''./scripts/deploy.sh'' [''qa'', ''status'']) = []
   \<and> exitCode (deploy_sh toolSucceeds ''./scripts/deploy.sh'' [''qa'', ''status'']) = 1"
proof -
  have p: "positional [''qa'', ''diff'', ''cfn''] 1 = ''qa''"
    "withDefault (positional [''qa'', ''diff'', ''cfn''] 2) ''deploy'' = ''diff''"
    "withDefault (positional [''qa'', ''diff'', ''cfn''] 3) ''high-level'' = ''cfn''"
    "positional [''prod''] 1 = ''prod''"
    "withDefault (positional [''prod''] 2) ''deploy'' = ''deploy''"
    "withDefault (positional [''prod''] 3) ''high-level'' = ''high-level''"
    "positional [''qa'', ''status''] 1 = ''qa''"
    "withDefault (positional [''qa'', ''status''] 2) ''deploy'' = ''status''"
    by (simp_all add: positional_def withDefault_def)
  show ?thesis
    using
      deploy_sh_accepts_and_rejects
        [of "[''qa'', ''diff'', ''cfn'']" toolFails "''./scripts/deploy.sh''"]
      deploy_sh_accepts_and_rejects
        [of "[''qa'', ''diff'', ''cfn'']" toolSucceeds "''./scripts/deploy.sh''"]
      deploy_sh_accepts_and_rejects
        [of "[''prod'']" toolSucceeds "''./scripts/deploy.sh''"]
      deploy_sh_accepts_and_rejects
        [of "[''qa'', ''status'']" toolSucceeds "''./scripts/deploy.sh''"]
    unfolding p
    by (simp add: toolFails_def toolSucceeds_def)
qed

end
